theory Spec2Isabelle
  imports Complex_Main "HOL-Library.Char_ord" "HOL-Library.List_Lexorder" "HOL-Library.Log_Nat"
begin

section \<open>Values of the workbook\<close>

text \<open>
  The program (\<^verbatim>\<open>app.py\<close>) keeps three sheets of an Excel workbook, read into pandas
  data frames: the time log, the project definitions and the active timer. A cell of a
  frame is a null (\<^verbatim>\<open>NaN\<close>, \<^verbatim>\<open>NaT\<close>, \<^verbatim>\<open>None\<close>: whatever \<^verbatim>\<open>pd.isna\<close> accepts), a string, a
  number, a timestamp or a calendar date.

  A timestamp is a naive local time, counted in nanoseconds since the epoch (the
  resolution of \<^verbatim>\<open>pd.Timestamp\<close>); a date is a count of days since the epoch. A number is
  a finite Python float, given by its exact value, a rational; the arithmetic of the
  program on floats rounds every result to the nearest float (\<open>fl64\<close> below).

  A character is a code point below 256, so a string is a Python string in that range.
\<close>

type_synonym timestamp = int
type_synonym date = int

datatype cell = NaN | Str string | Num rat | Ts timestamp | Dt date

definition ns_per_day :: int where
  "ns_per_day = 86400000000000"

text \<open>\<^verbatim>\<open>Timestamp.date()\<close>, and the timestamp of a date (its midnight).\<close>

definition date_of :: "timestamp \<Rightarrow> date" where
  "date_of t = t div ns_per_day"

definition midnight :: "date \<Rightarrow> timestamp" where
  "midnight d = d * ns_per_day"

text \<open>
  What pandas does with the values it reads, parses, prints or adds is not code of the
  program, and differs between its versions. It is a parameter of the model:
  \<^item> how \<^verbatim>\<open>pd.to_datetime\<close> reads a string or a number (no result for a value it coerces
    to \<^verbatim>\<open>NaT\<close>), and how \<^verbatim>\<open>pd.to_numeric\<close> reads a value that is not a number;
  \<^item> how \<^verbatim>\<open>str\<close> prints a value that is neither a string nor a null: its first character
    and the rest, since no number and no time prints as the empty string;
  \<^item> whether \<^verbatim>\<open>astype(str)\<close> prints a null as \<^verbatim>\<open>nan\<close> (pandas 2) or leaves it null
    (pandas 3);
  \<^item> the rows that \<^verbatim>\<open>pd.read_excel\<close> returns for each sheet of a file;
  \<^item> the float that \<^verbatim>\<open>Timedelta.total_seconds()\<close> returns for a difference of
    nanoseconds, and the float that \<^verbatim>\<open>groupby(...).sum()\<close> returns for the floats of one
    group;
  \<^item> the two renderings of a timestamp that the display record uses.
\<close>

record library =
  parse_datetime :: "cell \<Rightarrow> timestamp option"
  parse_numeric :: "cell \<Rightarrow> rat option"
  str_value :: "cell \<Rightarrow> char \<times> string"
  astype_nan :: bool
  timedelta_seconds :: "int \<Rightarrow> rat"
  series_sum :: "rat list \<Rightarrow> rat"
  strftime :: "string \<Rightarrow> timestamp \<Rightarrow> string"
  isoformat :: "timestamp \<Rightarrow> string"

text \<open>
  \<^verbatim>\<open>pd.to_datetime(value, errors="coerce")\<close>, cell by cell: a null stays null, a
  timestamp is kept, a date becomes its midnight, anything else is parsed.
\<close>

fun to_datetime :: "library \<Rightarrow> cell \<Rightarrow> timestamp option" where
  "to_datetime L NaN = None"
| "to_datetime L (Ts t) = Some t"
| "to_datetime L (Dt d) = Some (midnight d)"
| "to_datetime L c = parse_datetime L c"



text \<open>The cell that holds a parsed timestamp, and the one that holds its date.\<close>

definition ts_cell :: "timestamp option \<Rightarrow> cell" where
  "ts_cell v = (case v of None \<Rightarrow> NaN | Some t \<Rightarrow> Ts t)"

definition date_cell :: "timestamp option \<Rightarrow> cell" where
  "date_cell v = (case v of None \<Rightarrow> NaN | Some t \<Rightarrow> Dt (date_of t))"

text \<open>
  \<^verbatim>\<open>str(value)\<close>: a string is itself, a null prints as \<^verbatim>\<open>nan\<close>, any other value as the
  library prints it.
\<close>

fun str_of :: "library \<Rightarrow> cell \<Rightarrow> string" where
  "str_of L (Str s) = s"
| "str_of L NaN = ''nan''"
| "str_of L c = (case str_value L c of (h, t) \<Rightarrow> h # t)"

text \<open>
  \<^verbatim>\<open>.astype(str)\<close> on one cell: the string of a value that is not null; a null becomes
  the string \<^verbatim>\<open>nan\<close> or stays null (no string), as the library has it.
\<close>

fun astype_str :: "library \<Rightarrow> cell \<Rightarrow> string option" where
  "astype_str L NaN = (if astype_nan L then Some ''nan'' else None)"
| "astype_str L c = Some (str_of L c)"

text \<open>\<^verbatim>\<open>.fillna("")\<close> on one cell.\<close>

fun fillna_empty :: "cell \<Rightarrow> cell" where
  "fillna_empty NaN = Str []"
| "fillna_empty c = c"

section \<open>Strings\<close>

text \<open>
  \<^verbatim>\<open>str.strip()\<close> removes the white space at both ends. Below 256 the white space of
  Python (\<^verbatim>\<open>str.isspace\<close>) is: tab, line feed, vertical tab, form feed, carriage return,
  the four separators 28 to 31, the space, the next-line control 133 and the no-break
  space 160. \<^verbatim>\<open>str.lower()\<close> maps the capitals A to Z and the Latin-1 capitals 192 to 222
  (215, the multiplication sign, is none) to the letter 32 places further.
\<close>

definition is_space :: "char \<Rightarrow> bool" where
  "is_space c = ((of_char c :: nat) \<in> {9, 10, 11, 12, 13, 28, 29, 30, 31, 32, 133, 160})"

definition strip :: "string \<Rightarrow> string" where
  "strip s = rev (dropWhile is_space (rev (dropWhile is_space s)))"

definition lower_char :: "char \<Rightarrow> char" where
  "lower_char c =
     (let n = (of_char c :: nat)
      in if (65 \<le> n \<and> n \<le> 90) \<or> (192 \<le> n \<and> n \<le> 222 \<and> n \<noteq> 215)
         then char_of (n + 32) else c)"

definition lower :: "string \<Rightarrow> string" where
  "lower s = map lower_char s"

text \<open>\<^verbatim>\<open>str(n)\<close> of an integer, and the format \<^verbatim>\<open>{n:02d}\<close>.\<close>

definition digit_char :: "nat \<Rightarrow> char" where
  "digit_char d = char_of (48 + d)"

fun str_nat :: "nat \<Rightarrow> string" where
  "str_nat n = (if n < 10 then [digit_char n] else str_nat (n div 10) @ [digit_char (n mod 10)])"

declare str_nat.simps [simp del]

definition str_int :: "int \<Rightarrow> string" where
  "str_int i = (if i < 0 then CHR ''-'' # str_nat (nat (- i)) else str_nat (nat i))"

text \<open>
  The format \<^verbatim>\<open>02d\<close> pads with zeros to a width of two characters, the sign counted: a
  negative number and a number of two digits or more are printed as they are.
\<close>

definition fmt_02d :: "int \<Rightarrow> string" where
  "fmt_02d i = (if 0 \<le> i \<and> i < 10 then CHR ''0'' # str_int i else str_int i)"

section \<open>Floats\<close>

text \<open>
  A float has 53 significant bits and an exponent of at least -1074. \<open>fl64 x\<close> is the
  float nearest to the rational \<open>x\<close>, the one with the even significand at a tie, as the
  arithmetic of Python rounds. A result of magnitude \<open>2 ^ 1024\<close> or more is the overflow
  to infinity. \<open>ilog2 a\<close> is the exponent \<open>e\<close> with \<open>2 ^ e \<le> a < 2 ^ (e + 1)\<close>.
\<close>

definition pow2 :: "int \<Rightarrow> rat" where
  "pow2 k = (if 0 \<le> k then 2 ^ nat k else 1 / 2 ^ nat (- k))"

definition ilog2 :: "rat \<Rightarrow> int" where
  "ilog2 a =
     (case quotient_of a of
        (p, q) \<Rightarrow> let k = bitlen p - bitlen q in if pow2 k \<le> a then k else k - 1)"

text \<open>
  Python's \<^verbatim>\<open>round(x)\<close> on a float: the nearest integer, the even one at a tie.
\<close>

definition py_round :: "rat \<Rightarrow> int" where
  "py_round x =
     (let f = \<lfloor>x\<rfloor>; d = x - of_int f
      in if d < 1 / 2 then f
         else if 1 / 2 < d then f + 1
         else if even f then f else f + 1)"

definition fl64 :: "rat \<Rightarrow> rat" where
  "fl64 x =
     (if x = 0 then 0
      else
        let q = max (ilog2 \<bar>x\<bar> - 52) (- 1074)
        in sgn x * of_int (py_round (\<bar>x\<bar> / pow2 q)) * pow2 q)"

definition overflows :: "rat \<Rightarrow> bool" where
  "overflows x = (2 ^ 1024 \<le> \<bar>x\<bar>)"

text \<open>
  \<^verbatim>\<open>round(x, 2)\<close> on a float: the exact value of \<open>x\<close> is rounded to two decimal places
  (to the even digit at a tie), and the decimal number is read as a float.
\<close>

definition round2 :: "rat \<Rightarrow> rat" where
  "round2 x = fl64 (of_int (py_round (x * 100)) / 100)"

section \<open>Formatting a duration\<close>

text \<open>
  \<^verbatim>\<open>format_duration\<close>: the product \<^verbatim>\<open>minutes * 60\<close> is a float; \<^verbatim>\<open>round\<close> of an infinite
  float raises \<^verbatim>\<open>OverflowError\<close>. \<^verbatim>\<open>divmod\<close> is floor division, as \<open>div\<close> and \<open>mod\<close> on
  the integers, and the tests \<^verbatim>\<open>if hours:\<close> and \<^verbatim>\<open>if mins:\<close> ask whether the number is
  not zero.
\<close>

datatype py_error = OverflowError

definition format_duration :: "rat \<Rightarrow> py_error + string" where
  "format_duration minutes =
     (let product = fl64 (minutes * 60)
      in if overflows product then Inl OverflowError
         else
           let total_seconds = py_round product;
               hours = total_seconds div 3600;
               remainder = total_seconds mod 3600;
               mins = remainder div 60;
               secs = remainder mod 60
           in if hours \<noteq> 0 then Inr (fmt_02d hours @ ''h '' @ fmt_02d mins @ ''m'')
              else if mins \<noteq> 0 then Inr (str_int mins @ ''m '' @ fmt_02d secs @ ''s'')
              else Inr (str_int secs @ ''s''))"

text \<open>
  The rendering as the specification words it: the first form when the hours are
  positive, the second when the minutes are positive. It is compared with
  \<open>format_duration\<close> below.
\<close>

definition format_duration_spec :: "rat \<Rightarrow> py_error + string" where
  "format_duration_spec minutes =
     (let product = fl64 (minutes * 60)
      in if overflows product then Inl OverflowError
         else
           let total_seconds = py_round product;
               hours = total_seconds div 3600;
               remainder = total_seconds mod 3600;
               mins = remainder div 60;
               secs = remainder mod 60
           in if 0 < hours then Inr (fmt_02d hours @ ''h '' @ fmt_02d mins @ ''m'')
              else if 0 < mins then Inr (str_int mins @ ''m '' @ fmt_02d secs @ ''s'')
              else Inr (str_int secs @ ''s''))"

section \<open>The sheets\<close>

text \<open>
  The three sheets carry the columns that \<^verbatim>\<open>ensure_workbook\<close> creates and
  \<^verbatim>\<open>write_workbook\<close> keeps (\<^verbatim>\<open>LOG_COLUMNS\<close>, \<^verbatim>\<open>PROJECT_COLUMNS\<close>, \<^verbatim>\<open>ACTIVE_COLUMNS\<close>), so a
  frame is the list of its rows, \<^verbatim>\<open>df.empty\<close> asks whether the list is empty, and the
  tests \<^verbatim>\<open>"Date" in normalized.columns\<close> of the source succeed. A cell may hold any
  value. The functions of the program are given the frames that \<^verbatim>\<open>read_workbook\<close>
  returned, and the operations return the frames that they hand to \<^verbatim>\<open>write_workbook\<close>,
  or the frames they read when they write nothing.
\<close>

record log_row =
  l_Date :: cell
  l_Project :: cell
  l_Activity :: cell
  l_Start :: cell
  l_End :: cell
  l_DurationMinutes :: cell
  l_Notes :: cell

record project_row =
  p_Project :: cell
  p_Activity :: cell

record active_row =
  a_Project :: cell
  a_Activity :: cell
  a_Notes :: cell
  a_Start :: cell

record workbook =
  log_sheet :: "log_row list"
  projects_sheet :: "project_row list"
  active_sheet :: "active_row list"

text \<open>
  \<^verbatim>\<open>write_workbook\<close>: a log that is not empty has its \<^verbatim>\<open>Date\<close>, \<^verbatim>\<open>Start\<close> and \<^verbatim>\<open>End\<close> columns
  coerced to timestamps (the \<^verbatim>\<open>Date\<close> column then reduced to dates), an active sheet that
  is not empty its \<^verbatim>\<open>Start\<close> column. The result is the workbook that is stored.
\<close>

definition coerce_log_row :: "library \<Rightarrow> log_row \<Rightarrow> log_row" where
  "coerce_log_row L r =
     r\<lparr>l_Date := date_cell (to_datetime L (l_Date r)),
       l_Start := ts_cell (to_datetime L (l_Start r)),
       l_End := ts_cell (to_datetime L (l_End r))\<rparr>"

definition coerce_active_row :: "library \<Rightarrow> active_row \<Rightarrow> active_row" where
  "coerce_active_row L r = r\<lparr>a_Start := ts_cell (to_datetime L (a_Start r))\<rparr>"

definition write_workbook ::
  "library \<Rightarrow> log_row list \<Rightarrow> project_row list \<Rightarrow> active_row list \<Rightarrow> workbook" where
  "write_workbook L log_df projects_df active_df =
     \<lparr>log_sheet = (if log_df \<noteq> [] then map (coerce_log_row L) log_df else log_df),
      projects_sheet = projects_df,
      active_sheet =
        (if active_df \<noteq> [] then map (coerce_active_row L) active_df else active_df)\<rparr>"

text \<open>
  \<^verbatim>\<open>read_workbook\<close>: what \<^verbatim>\<open>pd.read_excel\<close> makes of the cells of a sheet (a date comes
  back as a time, a time with the precision of Excel, a text as a null, a number or
  itself) is the library's; but an empty text never comes back as the empty string, it
  is a null (the empty string is among the null markers of the reader).
\<close>

record reader =
  read_log :: "log_row list \<Rightarrow> log_row list"
  read_projects :: "project_row list \<Rightarrow> project_row list"
  read_active :: "active_row list \<Rightarrow> active_row list"

fun na_empty :: "cell \<Rightarrow> cell" where
  "na_empty (Str s) = (if s = [] then NaN else Str s)"
| "na_empty c = c"

definition read_workbook :: "reader \<Rightarrow> workbook \<Rightarrow> workbook" where
  "read_workbook R file =
     \<lparr>log_sheet =
        map (\<lambda>r. \<lparr>l_Date = na_empty (l_Date r), l_Project = na_empty (l_Project r),
                   l_Activity = na_empty (l_Activity r), l_Start = na_empty (l_Start r),
                   l_End = na_empty (l_End r),
                   l_DurationMinutes = na_empty (l_DurationMinutes r),
                   l_Notes = na_empty (l_Notes r)\<rparr>)
          (read_log R (log_sheet file)),
      projects_sheet =
        map (\<lambda>r. \<lparr>p_Project = na_empty (p_Project r), p_Activity = na_empty (p_Activity r)\<rparr>)
          (read_projects R (projects_sheet file)),
      active_sheet =
        map (\<lambda>r. \<lparr>a_Project = na_empty (a_Project r), a_Activity = na_empty (a_Activity r),
                   a_Notes = na_empty (a_Notes r), a_Start = na_empty (a_Start r)\<rparr>)
          (read_active R (active_sheet file))\<rparr>"

section \<open>The log normalizer and the daily summary\<close>









section \<open>The taxonomy\<close>

text \<open>
  \<^verbatim>\<open>build_project_map\<close>: nulls become empty strings, so that \<^verbatim>\<open>astype(str)\<close> finds no null
  and prints every cell; both columns are stripped, the rows are grouped by project
  (\<^verbatim>\<open>groupby\<close> visits the groups in the order of their keys), and each project that is not
  empty gets the sorted set of its activities that are not empty. The dictionary is the
  list of its items in insertion order.
\<close>

definition clean_cell :: "library \<Rightarrow> cell \<Rightarrow> string" where
  "clean_cell L c = strip (str_of L (fillna_empty c))"

definition build_project_map :: "library \<Rightarrow> project_row list \<Rightarrow> (string \<times> string list) list" where
  "build_project_map L projects_df =
     (if projects_df = [] then []
      else
        let cleaned = map (\<lambda>r. (clean_cell L (p_Project r), clean_cell L (p_Activity r))) projects_df
        in List.map_filter
             (\<lambda>project.
                let group = filter (\<lambda>x. fst x = project) cleaned;
                    activities = sort (remdups (filter (\<lambda>activity. activity \<noteq> []) (map snd group)))
                in if project \<noteq> [] then Some (project, activities) else None)
             (sort (remdups (map fst cleaned))))"

section \<open>The operations\<close>

text \<open>
  An operation reads the workbook, reports with a flash message and may write the
  workbook. Its result is the error or the message of success, and the workbook
  afterwards. The errors, with the messages the source flashes:
  \<^item> \<open>AlreadyRunning\<close>: \<^verbatim>\<open>A timer is already running. Stop it before starting a new one.\<close>
  \<^item> \<open>ValidationError\<close>, with its message;
  \<^item> \<open>NoActiveSession\<close>: \<^verbatim>\<open>No running timer to stop.\<close>
  \<^item> \<open>CorruptSession\<close>: \<^verbatim>\<open>The active timer has an invalid start time and was cleared.\<close>
  \<^item> \<open>DuplicateDefinition\<close>: \<^verbatim>\<open>This activity is already defined for the project.\<close>
\<close>

datatype error =
    AlreadyRunning
  | ValidationError string
  | NoActiveSession
  | CorruptSession
  | DuplicateDefinition

type_synonym outcome = "(error + string) \<times> workbook"

text \<open>
  The comparison \<^verbatim>\<open>column.astype(str).str.lower() == name.lower()\<close> on one cell: a cell
  that stays null equals no name.
\<close>

definition lower_equal :: "library \<Rightarrow> cell \<Rightarrow> string \<Rightarrow> bool" where
  "lower_equal L c name =
     (case astype_str L c of None \<Rightarrow> False | Some s \<Rightarrow> lower s = lower name)"

text \<open>\<^verbatim>\<open>add_project_activity\<close>, on the names of the form.\<close>

definition add_project_activity :: "library \<Rightarrow> string \<Rightarrow> string \<Rightarrow> workbook \<Rightarrow> outcome" where
  "add_project_activity L project activity wb =
     (let project_name = strip project;
          activity_name = strip activity
      in if project_name = [] \<or> activity_name = []
         then (Inl (ValidationError ''Project and activity names are both required.''), wb)
         else
           let projects_df = projects_sheet wb;
               existing = filter (\<lambda>r. lower_equal L (p_Project r) project_name) projects_df;
               match = filter (\<lambda>r. lower_equal L (p_Activity r) activity_name) existing
           in if projects_df \<noteq> [] \<and> existing \<noteq> [] \<and> match \<noteq> []
              then (Inl DuplicateDefinition, wb)
              else (Inr (''Added '' @ [CHR 0x27] @ activity_name @ [CHR 0x27] @ '' to '' @ project_name @ ''.''),
                    write_workbook L (log_sheet wb)
                      (projects_df @ [\<lparr>p_Project = Str project_name, p_Activity = Str activity_name\<rparr>])
                      (active_sheet wb)))"

text \<open>
  \<^verbatim>\<open>_safe_string\<close> and \<^verbatim>\<open>build_active_entry\<close>; the display record is the list of its items,
  empty for the empty dictionary.
\<close>

fun safe_string :: "library \<Rightarrow> cell \<Rightarrow> string" where
  "safe_string L (Str s) = s"
| "safe_string L NaN = []"
| "safe_string L c = str_of L c"

definition build_active_entry :: "library \<Rightarrow> active_row list \<Rightarrow> (string \<times> string) list" where
  "build_active_entry L active_df =
     (case active_df of
        [] \<Rightarrow> []
      | row # _ \<Rightarrow>
          (case to_datetime L (a_Start row) of
             None \<Rightarrow> []
           | Some start_dt \<Rightarrow>
               [(''project'', safe_string L (a_Project row)),
                (''activity'', safe_string L (a_Activity row)),
                (''notes'', safe_string L (a_Notes row)),
                (''start_display'', strftime L ''%b %d, %Y %I:%M %p'' start_dt),
                (''start_iso'', isoformat L start_dt)]))"

text \<open>
  \<^verbatim>\<open>handle_start\<close>, on the clock (\<^verbatim>\<open>datetime.now()\<close>) and the three fields of the form.
\<close>

definition handle_start ::
  "library \<Rightarrow> timestamp \<Rightarrow> string \<Rightarrow> string \<Rightarrow> string \<Rightarrow> workbook \<Rightarrow> outcome" where
  "handle_start L now form_project form_activity form_notes wb =
     (if active_sheet wb \<noteq> [] then (Inl AlreadyRunning, wb)
      else
        let project = strip form_project;
            activity = strip form_activity;
            notes = strip form_notes
        in if project = []
           then (Inl (ValidationError ''Please choose a project before starting the timer.''), wb)
           else if activity = []
           then (Inl (ValidationError ''Please choose an activity before starting the timer.''), wb)
           else
             let project_map = build_project_map L (projects_sheet wb)
             in (case map_of project_map project of
                   None \<Rightarrow> (Inl (ValidationError ''The selected project and activity are not defined.''), wb)
                 | Some activities \<Rightarrow>
                     if activity \<notin> set activities
                     then (Inl (ValidationError ''The selected project and activity are not defined.''), wb)
                     else (Inr (''Timer started for '' @ activity @ '' in '' @ project @ ''.''),
                           write_workbook L (log_sheet wb) (projects_sheet wb)
                             [\<lparr>a_Project = Str project, a_Activity = Str activity,
                               a_Notes = Str notes, a_Start = Ts now\<rparr>])))"

text \<open>
  \<^verbatim>\<open>handle_stop\<close>, on the clock and the notes of the form. The duration is
  \<^verbatim>\<open>round((end_dt - start_dt).total_seconds() / 60, 2)\<close>: the seconds of the library, a
  float division by 60, and the rounding to two places.
\<close>

definition duration_minutes :: "library \<Rightarrow> timestamp \<Rightarrow> timestamp \<Rightarrow> rat" where
  "duration_minutes L end_dt start_dt =
     round2 (fl64 (timedelta_seconds L (end_dt - start_dt) / 60))"

definition handle_stop :: "library \<Rightarrow> timestamp \<Rightarrow> string \<Rightarrow> workbook \<Rightarrow> outcome" where
  "handle_stop L now form_notes wb =
     (case active_sheet wb of
        [] \<Rightarrow> (Inl NoActiveSession, wb)
      | active_entry # _ \<Rightarrow>
          let notes = strip form_notes
          in (case to_datetime L (a_Start active_entry) of
                None \<Rightarrow> (Inl CorruptSession, write_workbook L (log_sheet wb) (projects_sheet wb) [])
              | Some start_dt \<Rightarrow>
                  let end_dt = now;
                      entry = \<lparr>l_Date = Dt (date_of start_dt),
                               l_Project = a_Project active_entry,
                               l_Activity = a_Activity active_entry,
                               l_Start = Ts start_dt,
                               l_End = Ts end_dt,
                               l_DurationMinutes = Num (duration_minutes L end_dt start_dt),
                               l_Notes = (if notes \<noteq> [] then Str notes else a_Notes active_entry)\<rparr>
                  in (Inr ''Session saved to the time log.'',
                      write_workbook L (log_sheet wb @ [entry]) (projects_sheet wb) [])))"

section \<open>A sample library and sample workbooks\<close>

text \<open>
  A library for evaluating the model on concrete workbooks. It reads no string as a
  time or a number, prints every value as \<^verbatim>\<open>?\<close> and a null as \<^verbatim>\<open>nan\<close>; its seconds of a
  difference are the whole seconds plus the float of the microseconds over a million
  (\<^verbatim>\<open>days * 24 * 3600 + seconds + microseconds / 1_000_000\<close>), and its sum adds the
  floats from left to right.
\<close>

definition sample_seconds :: "int \<Rightarrow> rat" where
  "sample_seconds ns =
     (let us = ns div 1000
      in fl64 (of_int (us div 1000000) + fl64 (of_int (us mod 1000000) / 1000000)))"

definition sample_sum :: "rat list \<Rightarrow> rat" where
  "sample_sum xs = foldl (\<lambda>s x. fl64 (s + x)) 0 xs"

definition sample_library :: library where
  "sample_library =
     \<lparr>parse_datetime = (\<lambda>c. None), parse_numeric = (\<lambda>c. None),
      str_value = (\<lambda>c. (CHR ''?'', [])), astype_nan = True,
      timedelta_seconds = sample_seconds, series_sum = sample_sum,
      strftime = (\<lambda>f t. f), isoformat = (\<lambda>t. str_int t)\<rparr>"

text \<open>A reader that returns the rows as they were written.\<close>

definition sample_reader :: reader where
  "sample_reader = \<lparr>read_log = (\<lambda>rows. rows), read_projects = (\<lambda>rows. rows),
                    read_active = (\<lambda>rows. rows)\<rparr>"

text \<open>
  Concrete workbooks on which the theorems below are evaluated: no sheet filled; one
  definition and no timer; a timer started one second before midnight of day 0; a timer
  whose start is a string that reads as no time; a log row without a start; a log of
  four entries, two of them on day 0, one on day 1 and one without a start; a definitions
  sheet with blanks (nulls, a no-break space, a next-line control) and repetitions.
\<close>

definition empty_workbook :: workbook where
  "empty_workbook = \<lparr>log_sheet = [], projects_sheet = [], active_sheet = []\<rparr>"

definition idle_workbook :: workbook where
  "idle_workbook =
     \<lparr>log_sheet = [],
      projects_sheet = [\<lparr>p_Project = Str ''Work'', p_Activity = Str ''Email''\<rparr>],
      active_sheet = []\<rparr>"

definition running_workbook :: workbook where
  "running_workbook =
     \<lparr>log_sheet = [],
      projects_sheet = [\<lparr>p_Project = Str ''Work'', p_Activity = Str ''Email''\<rparr>],
      active_sheet = [\<lparr>a_Project = Str ''Work'', a_Activity = Str ''Email'',
                       a_Notes = Str ''inbox'', a_Start = Ts 86399000000000\<rparr>]\<rparr>"

definition corrupt_workbook :: workbook where
  "corrupt_workbook =
     \<lparr>log_sheet = [],
      projects_sheet = [\<lparr>p_Project = Str ''Work'', p_Activity = Str ''Email''\<rparr>],
      active_sheet = [\<lparr>a_Project = Str ''Work'', a_Activity = Str ''Email'',
                       a_Notes = NaN, a_Start = Str ''yesterday''\<rparr>]\<rparr>"



definition sample_projects :: "project_row list" where
  "sample_projects =
     [\<lparr>p_Project = Str ''Work'', p_Activity = Str ''Email''\<rparr>,
      \<lparr>p_Project = Str '' Work'', p_Activity = Str ''Code  ''\<rparr>,
      \<lparr>p_Project = Str ''Work'', p_Activity = Str ''Code''\<rparr>,
      \<lparr>p_Project = NaN, p_Activity = Str ''Lost''\<rparr>,
      \<lparr>p_Project = Str [CHR 0xA0, CHR 0x85], p_Activity = Str ''Ghost''\<rparr>,
      \<lparr>p_Project = Str ''Work'', p_Activity = Str [CHR 0xA0]\<rparr>,
      \<lparr>p_Project = Str ''Home'', p_Activity = NaN\<rparr>]"

section \<open>Facts about the values\<close>

lemma date_of_midnight: "date_of (midnight d) = d"
  by (simp add: date_of_def midnight_def ns_per_day_def)


text \<open>A stripped string starts with no white space, so stripping it again changes nothing.\<close>

lemma dropWhile_trimmed:
  assumes "xs = rev (dropWhile P (rev (dropWhile P s)))"
  shows "dropWhile P xs = xs"
proof (cases xs)
  case Nil
  then show ?thesis by simp
next
  case (Cons x ys)
  have "dropWhile P s = xs @ rev (takeWhile P (rev (dropWhile P s)))"
    unfolding assms by (metis rev_append rev_rev_ident takeWhile_dropWhile_id)
  then obtain zs where zs: "dropWhile P s = x # (ys @ zs)"
    using Cons by auto
  then have "\<not> P x"
    by (metis hd_dropWhile list.sel(1) list.distinct(1))
  then show ?thesis using Cons by simp
qed

lemma strip_idem: "strip (strip s) = strip s"
proof -
  have "dropWhile is_space (strip s) = strip s"
    by (rule dropWhile_trimmed) (simp add: strip_def)
  then show ?thesis
    by (simp add: strip_def [of "strip s"]) (simp add: strip_def)
qed

lemma clean_cell_strip: "strip (clean_cell L c) = clean_cell L c"
  by (simp add: clean_cell_def strip_idem)

lemma lower_empty: "lower s = [] \<longleftrightarrow> s = []"
  by (simp add: lower_def)

text \<open>Rounding to an integer: never further than a half, and to the even one at a half.\<close>

lemma py_round_nearest: "\<bar>of_int (py_round x) - x\<bar> \<le> 1 / 2"
proof -
  have "of_int \<lfloor>x\<rfloor> \<le> x" "x < of_int \<lfloor>x\<rfloor> + 1" by linarith+
  then show ?thesis by (auto simp: py_round_def Let_def)
qed

lemma py_round_tie_even:
  assumes "\<bar>of_int (py_round x) - x\<bar> = 1 / 2"
  shows "even (py_round x)"
proof -
  have b: "of_int \<lfloor>x\<rfloor> \<le> x" "x < of_int \<lfloor>x\<rfloor> + 1" by linarith+
  show ?thesis
  proof (cases "x - of_int \<lfloor>x\<rfloor> = 1 / 2")
    case True
    then show ?thesis by (simp add: py_round_def Let_def)
  next
    case False
    with b assms show ?thesis by (auto simp: py_round_def Let_def split: if_splits)
  qed
qed

lemma py_round_nonneg: "0 \<le> x \<Longrightarrow> 0 \<le> py_round x"
  by (auto simp: py_round_def Let_def)

lemma pow2_pos: "0 < pow2 k"
  by (simp add: pow2_def)

lemma pow2_powi: "pow2 k = 2 powi k"
  by (simp add: pow2_def power_int_def field_simps)

lemma pow2_mono: "a \<le> b \<Longrightarrow> pow2 a \<le> pow2 b"
  by (simp add: pow2_powi power_int_increasing)

lemma pow2_less: "pow2 a < pow2 b \<Longrightarrow> a < b"
  by (metis pow2_mono not_le)

lemma powi_Suc: "(2::rat) powi (1 + b) = 2 * 2 powi b"
  by (subst power_int_add) simp_all

text \<open>
  The exponent that \<open>ilog2\<close> computes from the lengths of numerator and denominator is
  the one of the definition, and the overflow is an exponent of 1024 or more; the test is
  evaluated in this form.
\<close>

lemma quotient_bounds:
  assumes a: "0 < a" and q: "quotient_of a = (p, q)"
  shows "pow2 (bitlen p - bitlen q - 1) < a \<and> a < pow2 (bitlen p - bitlen q + 1)"
proof -
  have qpos: "0 < q" using q quotient_of_denom_pos by blast
  have aq: "a = of_int p / of_int q" using q quotient_of_div by blast
  have ppos: "0 < p" using a aq qpos by (simp add: zero_less_divide_iff)
  from bitlen_bounds [OF ppos] bitlen_bounds [OF qpos]
  have p1: "(2::int) ^ nat (bitlen p - 1) \<le> p" and p2: "p < 2 ^ nat (bitlen p)"
    and q1: "(2::int) ^ nat (bitlen q - 1) \<le> q" and q2: "q < 2 ^ nat (bitlen q)" by auto
  have bp: "1 \<le> bitlen p" and bq: "1 \<le> bitlen q"
    using ppos qpos by (auto simp: bitlen_alt_def)
  have P1: "pow2 (bitlen p - 1) \<le> of_int p"
    using p1 bp by (simp add: pow2_def)
  have P2: "of_int p < pow2 (bitlen p)"
    using p2 bp by (simp add: pow2_def)
  have Q1: "pow2 (bitlen q - 1) \<le> of_int q"
    using q1 bq by (simp add: pow2_def)
  have Q2: "of_int q < pow2 (bitlen q)"
    using q2 bq by (simp add: pow2_def)
  have pq: "0 < pow2 (bitlen q)" "0 < pow2 (bitlen q - 1)" "0 < (of_int q :: rat)"
    using qpos by (simp_all add: pow2_powi)
  have lo: "pow2 (bitlen p - bitlen q - 1) = pow2 (bitlen p - 1) / pow2 (bitlen q)"
    by (simp add: pow2_powi power_int_diff powi_Suc algebra_simps)
  have hi: "pow2 (bitlen p - bitlen q + 1) = pow2 (bitlen p) / pow2 (bitlen q - 1)"
    by (simp add: pow2_powi power_int_diff powi_Suc algebra_simps)
  have "pow2 (bitlen p - 1) / pow2 (bitlen q) < of_int p / of_int q"
    using P1 Q2 pq ppos by (simp add: frac_less2 pow2_powi)
  moreover have "of_int p / of_int q < pow2 (bitlen p) / pow2 (bitlen q - 1)"
    using P2 Q1 pq ppos by (simp add: frac_less pow2_powi)
  ultimately show ?thesis by (simp add: lo hi aq)
qed

lemma ilog2_bounds:
  assumes "0 < a"
  shows "pow2 (ilog2 a) \<le> a \<and> a < pow2 (ilog2 a + 1)"
proof -
  obtain p q where q: "quotient_of a = (p, q)" by (cases "quotient_of a")
  from quotient_bounds [OF assms q] show ?thesis
    by (auto simp: ilog2_def q Let_def not_le)
qed

lemma overflows_code: "overflows x = (x \<noteq> 0 \<and> 1024 \<le> ilog2 \<bar>x\<bar>)"
proof (cases "x = 0")
  case True
  then show ?thesis by (simp add: overflows_def)
next
  case False
  then have pos: "0 < \<bar>x\<bar>" by simp
  note b = ilog2_bounds [OF pos]
  have p: "pow2 1024 = 2 ^ 1024" by (simp add: pow2_def)
  show ?thesis
  proof
    assume "overflows x"
    then have "pow2 1024 < pow2 (ilog2 \<bar>x\<bar> + 1)" using b by (simp add: overflows_def p)
    then have "1024 < ilog2 \<bar>x\<bar> + 1" by (rule pow2_less)
    then show "x \<noteq> 0 \<and> 1024 \<le> ilog2 \<bar>x\<bar>" using False by simp
  next
    assume "x \<noteq> 0 \<and> 1024 \<le> ilog2 \<bar>x\<bar>"
    then have "pow2 1024 \<le> pow2 (ilog2 \<bar>x\<bar>)" by (simp add: pow2_mono)
    then show "overflows x" using b by (simp add: overflows_def p)
  qed
qed

declare overflows_code [code]

text \<open>
  The float of a number is a multiple of the unit of its binade, at most half a unit away
  from the number.
\<close>

lemma fl64_nearest:
  assumes "x \<noteq> 0"
  shows "\<bar>fl64 x - x\<bar> \<le> pow2 (max (ilog2 \<bar>x\<bar> - 52) (- 1074)) / 2"
proof -
  define p where "p = pow2 (max (ilog2 \<bar>x\<bar> - 52) (- 1074))"
  define k where "k = py_round (\<bar>x\<bar> / p)"
  have p: "0 < p" by (simp add: p_def pow2_pos)
  have x: "x = sgn x * (\<bar>x\<bar> / p) * p" using p by (simp add: sgn_if)
  have "fl64 x = sgn x * of_int k * p"
    using assms by (simp add: fl64_def Let_def p_def k_def)
  then have "fl64 x - x = sgn x * (of_int k - \<bar>x\<bar> / p) * p"
    using x by (simp add: algebra_simps)
  then have "\<bar>fl64 x - x\<bar> = \<bar>of_int k - \<bar>x\<bar> / p\<bar> * p"
    using assms p by (simp add: abs_mult sgn_if)
  also have "\<dots> \<le> 1 / 2 * p"
    using py_round_nearest [of "\<bar>x\<bar> / p"] p
    by (intro mult_right_mono) (simp_all add: k_def)
  finally show ?thesis by (simp add: p_def)
qed

lemma fl64_nonneg: "0 \<le> x \<Longrightarrow> 0 \<le> fl64 x"
proof -
  assume x: "0 \<le> x"
  have "0 \<le> py_round (\<bar>x\<bar> / pow2 q)" for q
    by (rule py_round_nonneg) (simp add: less_imp_le [OF pow2_pos])
  then show ?thesis using x
    by (auto simp: fl64_def Let_def sgn_if less_imp_le [OF pow2_pos])
qed

text \<open>
  The rounding to two places: the float of a number of hundredths that is nearest to
  the exact value, the even number at a tie.
\<close>

lemma round2_nearest:
  "\<exists>k. round2 x = fl64 (of_int k / 100) \<and> \<bar>of_int k - x * 100\<bar> \<le> 1 / 2 \<and>
       (\<bar>of_int k - x * 100\<bar> = 1 / 2 \<longrightarrow> even k)"
  using py_round_nearest [of "x * 100"] py_round_tie_even [of "x * 100"]
  by (auto simp: round2_def)

section \<open>The rendering of a duration\<close>

lemma format_duration_agrees:
  assumes "0 \<le> py_round (fl64 (minutes * 60))"
  shows "format_duration minutes = format_duration_spec minutes"
proof -
  let ?ts = "py_round (fl64 (minutes * 60))"
  have h: "0 \<le> ?ts div 3600" using assms by (simp add: pos_imp_zdiv_nonneg_iff)
  have m: "0 \<le> (?ts mod 3600) div 60" by (simp add: pos_imp_zdiv_nonneg_iff)
  from h m show ?thesis
    by (simp add: format_duration_def format_duration_spec_def Let_def order_less_le)
qed

text \<open>
  Claim C6, as stated: the first form is chosen when the hours are positive, the second
  when the minutes are positive. It fails on a negative argument: minus one minute is
  -60 seconds, \<^verbatim>\<open>divmod(-60, 3600)\<close> is \<^verbatim>\<open>(-1, 3540)\<close>, and the test \<^verbatim>\<open>if hours:\<close> holds for
  -1, so the source prints hours where the claim prints minutes and seconds.
\<close>

theorem format_duration_counterexample:
  "format_duration (- 1) = Inr ''-1h 59m'' \<and> format_duration_spec (- 1) = Inr ''59m 00s''"
proof
  show "format_duration (- 1) = Inr ''-1h 59m''" by code_simp
  show "format_duration_spec (- 1) = Inr ''59m 00s''" by code_simp
qed

text \<open>
  Claim C6, amended: \<^verbatim>\<open>format_duration\<close> rounds the float \<^verbatim>\<open>minutes * 60\<close> to the nearest
  whole number of seconds (at most a half away, to the even number at a half) and chooses
  the first form when the hours are not zero. When the rounded seconds are not negative,
  as for every argument that is not negative, this is the rendering of the claim (hours
  positive, else minutes positive, else seconds); when they are negative, the hours are
  negative and the first form is printed; when the product overflows, \<^verbatim>\<open>round\<close> raises.
  In particular 0 gives \<^verbatim>\<open>0s\<close>, 1.5 gives \<^verbatim>\<open>1m 30s\<close> and 90 gives \<^verbatim>\<open>01h 30m\<close>.
\<close>

theorem format_duration_renders:
  "(0 \<le> minutes \<longrightarrow> 0 \<le> py_round (fl64 (minutes * 60))) \<and>
   (0 \<le> py_round (fl64 (minutes * 60)) \<longrightarrow>
      format_duration minutes = format_duration_spec minutes) \<and>
   (py_round (fl64 (minutes * 60)) < 0 \<and> \<not> overflows (fl64 (minutes * 60)) \<longrightarrow>
      format_duration minutes =
        Inr (fmt_02d (py_round (fl64 (minutes * 60)) div 3600) @ ''h '' @
             fmt_02d (py_round (fl64 (minutes * 60)) mod 3600 div 60) @ ''m'')) \<and>
   (overflows (fl64 (minutes * 60)) \<longrightarrow> format_duration minutes = Inl OverflowError) \<and>
   \<bar>of_int (py_round (fl64 (minutes * 60))) - fl64 (minutes * 60)\<bar> \<le> 1 / 2 \<and>
   (\<bar>of_int (py_round (fl64 (minutes * 60))) - fl64 (minutes * 60)\<bar> = 1 / 2 \<longrightarrow>
      even (py_round (fl64 (minutes * 60)))) \<and>
   format_duration 0 = Inr ''0s'' \<and>
   format_duration (3 / 2) = Inr ''1m 30s'' \<and>
   format_duration 90 = Inr ''01h 30m''"
proof (intro conjI impI)
  assume "0 \<le> minutes"
  then have "0 \<le> fl64 (minutes * 60)" by (simp add: fl64_nonneg)
  then show "0 \<le> py_round (fl64 (minutes * 60))" by (rule py_round_nonneg)
next
  assume "0 \<le> py_round (fl64 (minutes * 60))"
  then show "format_duration minutes = format_duration_spec minutes"
    by (rule format_duration_agrees)
next
  assume neg: "py_round (fl64 (minutes * 60)) < 0 \<and> \<not> overflows (fl64 (minutes * 60))"
  then have "py_round (fl64 (minutes * 60)) div 3600 < 0"
    by (auto simp: pos_imp_zdiv_neg_iff)
  with neg show "format_duration minutes =
        Inr (fmt_02d (py_round (fl64 (minutes * 60)) div 3600) @ ''h '' @
             fmt_02d (py_round (fl64 (minutes * 60)) mod 3600 div 60) @ ''m'')"
    by (simp add: format_duration_def Let_def)
next
  assume "overflows (fl64 (minutes * 60))"
  then show "format_duration minutes = Inl OverflowError"
    by (simp add: format_duration_def Let_def)
next
  show "\<bar>of_int (py_round (fl64 (minutes * 60))) - fl64 (minutes * 60)\<bar> \<le> 1 / 2"
    by (rule py_round_nearest)
next
  assume "\<bar>of_int (py_round (fl64 (minutes * 60))) - fl64 (minutes * 60)\<bar> = 1 / 2"
  then show "even (py_round (fl64 (minutes * 60)))" by (rule py_round_tie_even)
next
  show "format_duration 0 = Inr ''0s''" by code_simp
  show "format_duration (3 / 2) = Inr ''1m 30s''" by code_simp
  show "format_duration 90 = Inr ''01h 30m''" by code_simp
qed

text \<open>
  Instances: 75 minutes; minus one minute; the float nearest to 5.5 / 60, whose exact
  product with 60 is below 5.5 and would round to 5, while the float product is 5.5 and
  rounds to 6; the ties 7.5 and 22.5 seconds, which round to the even 8 and 22; and a
  negative argument that rounds to no second.
\<close>

theorem format_duration_renders_witness:
  "(0::rat) \<le> 75 \<and> format_duration 75 = format_duration_spec 75 \<and>
   format_duration 75 = Inr ''01h 15m'' \<and>
   py_round (fl64 (- 1 * 60)) < 0 \<and> format_duration (- 1) = Inr ''-1h 59m'' \<and>
   format_duration (fl64 (11 / 120)) = Inr ''6s'' \<and>
   py_round (fl64 (11 / 120) * 60) = 5 \<and>
   format_duration (1 / 8) = Inr ''8s'' \<and>
   format_duration (3 / 8) = Inr ''22s'' \<and>
   format_duration (- 1 / 256) = format_duration_spec (- 1 / 256) \<and>
   format_duration (- 1 / 256) = Inr ''0s''"
proof -
  have a: "format_duration 75 = Inr ''01h 15m''" by code_simp
  have b: "py_round (fl64 (- 1 * 60)) = - 60" by code_simp
  have c: "format_duration (- 1) = Inr ''-1h 59m''" by code_simp
  have d: "format_duration (fl64 (11 / 120)) = Inr ''6s''" by code_simp
  have d': "py_round (fl64 (11 / 120) * 60) = 5" by code_simp
  have e: "format_duration (1 / 8) = Inr ''8s''" by code_simp
  have f: "format_duration (3 / 8) = Inr ''22s''" by code_simp
  have g: "py_round (fl64 (- 1 / 256 * 60)) = 0" by code_simp
  have h: "format_duration (- 1 / 256) = Inr ''0s''" by code_simp
  from format_duration_renders [of 75] format_duration_renders [of "- 1 / 256"] a b c d d' e f g h
  show ?thesis by simp
qed

section \<open>Daily totals\<close>







text \<open>
  The float sum of a group need not be its exact sum: the floats nearest to 0.1 and 1.1
  add up to a float above their exact sum.
\<close>

lemma float_sum_rounds:
  "sample_sum [fl64 (1 / 10), fl64 (11 / 10)] \<noteq> fl64 (1 / 10) + fl64 (11 / 10)"
  by code_simp




section \<open>The session state machine\<close>

text \<open>
  Claim C3: in every state with an active session row, \<^verbatim>\<open>handle_start\<close> fails with
  \<open>AlreadyRunning\<close> and the workbook (log, definitions, active session) is the one it
  read, whatever the project, the activity and the notes of the form.
\<close>

theorem start_while_running:
  "active_sheet wb \<noteq> [] \<Longrightarrow>
   handle_start L now form_project form_activity form_notes wb = (Inl AlreadyRunning, wb)"
  by (simp add: handle_start_def)

theorem start_while_running_witness:
  "active_sheet running_workbook \<noteq> [] \<and>
   handle_start sample_library 5 ''Work'' ''Email'' ''x'' running_workbook =
     (Inl AlreadyRunning, running_workbook)"
  using start_while_running [of running_workbook sample_library 5 "''Work''" "''Email''" "''x''"]
  by (simp add: running_workbook_def)

text \<open>
  Claim C4: in every state with no active session row, \<^verbatim>\<open>handle_stop\<close> fails with
  \<open>NoActiveSession\<close> and the workbook is the one it read, whatever the notes.
\<close>

theorem stop_while_idle:
  "active_sheet wb = [] \<Longrightarrow> handle_stop L now form_notes wb = (Inl NoActiveSession, wb)"
  by (simp add: handle_stop_def)

theorem stop_while_idle_witness:
  "active_sheet idle_workbook = [] \<and>
   handle_stop sample_library 5 ''done'' idle_workbook = (Inl NoActiveSession, idle_workbook)"
  using stop_while_idle [of idle_workbook sample_library 5 "''done''"]
  by (simp add: idle_workbook_def)

text \<open>
  Claim C5: in every state whose active session row has a start that reads as no
  timestamp, \<^verbatim>\<open>handle_stop\<close> fails with \<open>CorruptSession\<close> and writes the workbook with an
  empty active sheet. The log is written back row by row (coerced by \<^verbatim>\<open>write_workbook\<close>):
  it has as many entries as before, none is appended.
\<close>

theorem stop_corrupt_session:
  assumes "active_sheet wb \<noteq> []"
    and "to_datetime L (a_Start (hd (active_sheet wb))) = None"
  shows "handle_stop L now form_notes wb =
           (Inl CorruptSession,
            \<lparr>log_sheet = map (coerce_log_row L) (log_sheet wb),
             projects_sheet = projects_sheet wb,
             active_sheet = []\<rparr>) \<and>
         length (log_sheet (snd (handle_stop L now form_notes wb))) = length (log_sheet wb)"
  using assms
  by (cases "active_sheet wb") (simp_all add: handle_stop_def write_workbook_def)

theorem stop_corrupt_session_witness:
  "active_sheet corrupt_workbook \<noteq> [] \<and>
   to_datetime sample_library (a_Start (hd (active_sheet corrupt_workbook))) = None \<and>
   handle_stop sample_library 5 ''done'' corrupt_workbook =
     (Inl CorruptSession, idle_workbook)"
  using stop_corrupt_session [of corrupt_workbook sample_library 5 "''done''"]
  by (simp add: corrupt_workbook_def idle_workbook_def sample_library_def)

text \<open>
  Claim C9: for an active sheet whose first row has a start that reads as no timestamp,
  \<^verbatim>\<open>build_active_entry\<close> returns the empty display record, as it does for the empty sheet.
\<close>

theorem active_entry_unparsable:
  assumes "active_df \<noteq> []"
    and "to_datetime L (a_Start (hd active_df)) = None"
  shows "build_active_entry L active_df = [] \<and>
         build_active_entry L active_df = build_active_entry L []"
  using assms by (cases active_df) (simp_all add: build_active_entry_def)

theorem active_entry_unparsable_witness:
  "active_sheet corrupt_workbook \<noteq> [] \<and>
   to_datetime sample_library (a_Start (hd (active_sheet corrupt_workbook))) = None \<and>
   build_active_entry sample_library (active_sheet corrupt_workbook) = []"
  using active_entry_unparsable [of "active_sheet corrupt_workbook" sample_library]
  by (simp add: corrupt_workbook_def sample_library_def)

text \<open>A start that succeeds hands the writer the one row of the new session.\<close>

lemma handle_start_success:
  assumes "handle_start L now form_project form_activity form_notes wb = (Inr msg, wb')"
  shows "wb' = write_workbook L (log_sheet wb) (projects_sheet wb)
           [\<lparr>a_Project = Str (strip form_project), a_Activity = Str (strip form_activity),
             a_Notes = Str (strip form_notes), a_Start = Ts now\<rparr>]"
  using assms
  by (auto simp: handle_start_def Let_def split: if_splits option.splits)

text \<open>
  Claim C2: a start that succeeds persists one active session row, stamped with the
  time of the start. A stop then reads the workbook again; whatever it reads, as long as
  there is an active row whose start reads as a timestamp \<open>start_dt\<close>, it saves the
  session: the log it writes is the log it read (coerced by \<^verbatim>\<open>write_workbook\<close>, as on
  every write) with exactly one entry appended, whose project and activity are those of
  the active row, whose duration is the minutes from \<open>start_dt\<close> to the end rounded to two
  places, whose notes are the trimmed notes of the form or, when these are empty, the
  notes stored with the session; and the active sheet it writes is empty. The duration
  is the float of the number of hundredths nearest to the minutes (the float quotient of
  the seconds by 60), the even number at a tie.
\<close>

theorem stop_saves_session:
  "(handle_start L t0 form_project form_activity start_notes wb0 = (Inr msg, wb1) \<longrightarrow>
      active_sheet wb1 =
        [\<lparr>a_Project = Str (strip form_project), a_Activity = Str (strip form_activity),
          a_Notes = Str (strip start_notes), a_Start = Ts t0\<rparr>]) \<and>
   (active_sheet wb \<noteq> [] \<and> to_datetime L (a_Start (hd (active_sheet wb))) = Some start_dt \<longrightarrow>
      handle_stop L now form_notes wb =
        (Inr ''Session saved to the time log.'',
         \<lparr>log_sheet = map (coerce_log_row L) (log_sheet wb) @
            [\<lparr>l_Date = Dt (date_of start_dt),
              l_Project = a_Project (hd (active_sheet wb)),
              l_Activity = a_Activity (hd (active_sheet wb)),
              l_Start = Ts start_dt,
              l_End = Ts now,
              l_DurationMinutes =
                Num (round2 (fl64 (timedelta_seconds L (now - start_dt) / 60))),
              l_Notes = (if strip form_notes \<noteq> [] then Str (strip form_notes)
                         else a_Notes (hd (active_sheet wb)))\<rparr>],
          projects_sheet = projects_sheet wb,
          active_sheet = []\<rparr>)) \<and>
   (\<exists>k. round2 (fl64 (timedelta_seconds L (now - start_dt) / 60)) = fl64 (of_int k / 100) \<and>
        \<bar>of_int k - fl64 (timedelta_seconds L (now - start_dt) / 60) * 100\<bar> \<le> 1 / 2 \<and>
        (\<bar>of_int k - fl64 (timedelta_seconds L (now - start_dt) / 60) * 100\<bar> = 1 / 2 \<longrightarrow>
           even k))"
proof (intro conjI impI)
  assume "handle_start L t0 form_project form_activity start_notes wb0 = (Inr msg, wb1)"
  then have "wb1 = write_workbook L (log_sheet wb0) (projects_sheet wb0)
           [\<lparr>a_Project = Str (strip form_project), a_Activity = Str (strip form_activity),
             a_Notes = Str (strip start_notes), a_Start = Ts t0\<rparr>]"
    by (rule handle_start_success)
  then show "active_sheet wb1 =
        [\<lparr>a_Project = Str (strip form_project), a_Activity = Str (strip form_activity),
          a_Notes = Str (strip start_notes), a_Start = Ts t0\<rparr>]"
    by (simp add: write_workbook_def coerce_active_row_def ts_cell_def)
next
  assume running: "active_sheet wb \<noteq> [] \<and>
    to_datetime L (a_Start (hd (active_sheet wb))) = Some start_dt"
  then obtain active_entry rest where active: "active_sheet wb = active_entry # rest"
    by (cases "active_sheet wb") auto
  with running have parsed: "to_datetime L (a_Start active_entry) = Some start_dt" by simp
  show "handle_stop L now form_notes wb =
        (Inr ''Session saved to the time log.'',
         \<lparr>log_sheet = map (coerce_log_row L) (log_sheet wb) @
            [\<lparr>l_Date = Dt (date_of start_dt),
              l_Project = a_Project (hd (active_sheet wb)),
              l_Activity = a_Activity (hd (active_sheet wb)),
              l_Start = Ts start_dt,
              l_End = Ts now,
              l_DurationMinutes =
                Num (round2 (fl64 (timedelta_seconds L (now - start_dt) / 60))),
              l_Notes = (if strip form_notes \<noteq> [] then Str (strip form_notes)
                         else a_Notes (hd (active_sheet wb)))\<rparr>],
          projects_sheet = projects_sheet wb,
          active_sheet = []\<rparr>)"
    using parsed
    by (simp add: handle_stop_def active write_workbook_def Let_def coerce_log_row_def
        date_cell_def ts_cell_def date_of_midnight duration_minutes_def)
next
  show "\<exists>k. round2 (fl64 (timedelta_seconds L (now - start_dt) / 60)) = fl64 (of_int k / 100) \<and>
        \<bar>of_int k - fl64 (timedelta_seconds L (now - start_dt) / 60) * 100\<bar> \<le> 1 / 2 \<and>
        (\<bar>of_int k - fl64 (timedelta_seconds L (now - start_dt) / 60) * 100\<bar> = 1 / 2 \<longrightarrow>
           even k)"
    by (rule round2_nearest)
qed

text \<open>
  Instances: a start at one second before midnight of day 0, then stops after 125
  seconds (2.08 minutes), after 0.3 seconds (0.005 minutes as a float is above the tie,
  so 0.01) and after 171.3 seconds (2.855 minutes as a float is below the tie, so 2.85).
  The three durations are the floats nearest to 2.08, 0.01 and 2.85.
\<close>

theorem stop_saves_session_witness:
  "handle_start sample_library 86399000000000 '' Work'' ''Email'' ''inbox '' idle_workbook =
     (Inr ''Timer started for Email in Work.'', running_workbook) \<and>
   handle_stop sample_library 86524000000000 ''  '' running_workbook =
     (Inr ''Session saved to the time log.'',
      \<lparr>log_sheet =
         [\<lparr>l_Date = Dt 0, l_Project = Str ''Work'', l_Activity = Str ''Email'',
           l_Start = Ts 86399000000000, l_End = Ts 86524000000000,
           l_DurationMinutes = Num (1170935903116329 / 562949953421312),
           l_Notes = Str ''inbox''\<rparr>],
       projects_sheet = [\<lparr>p_Project = Str ''Work'', p_Activity = Str ''Email''\<rparr>],
       active_sheet = []\<rparr>) \<and>
   fl64 (208 / 100) = 1170935903116329 / 562949953421312 \<and>
   duration_minutes sample_library 86399300000000 86399000000000 = fl64 (1 / 100) \<and>
   duration_minutes sample_library 86570300000000 86399000000000 = fl64 (285 / 100)"
proof -
  have start: "handle_start sample_library 86399000000000 '' Work'' ''Email'' ''inbox '' idle_workbook =
     (Inr ''Timer started for Email in Work.'', running_workbook)"
    by code_simp
  have running: "active_sheet running_workbook \<noteq> [] \<and>
     to_datetime sample_library (a_Start (hd (active_sheet running_workbook))) =
       Some 86399000000000"
    by (simp add: running_workbook_def)
  have blank: "strip ''  '' = []" by code_simp
  have date: "date_of 86399000000000 = 0"
    by (simp add: date_of_def ns_per_day_def)
  have lib: "timedelta_seconds sample_library = sample_seconds"
    by (simp add: sample_library_def)
  have minutes: "round2 (fl64 (sample_seconds 125000000000 / 60)) =
     1170935903116329 / 562949953421312"
    by code_simp
  have f208: "fl64 (208 / 100) = 1170935903116329 / 562949953421312" by code_simp
  have short: "duration_minutes sample_library 86399300000000 86399000000000 = fl64 (1 / 100)"
    by code_simp
  have long: "duration_minutes sample_library 86570300000000 86399000000000 = fl64 (285 / 100)"
    by code_simp
  from stop_saves_session [of sample_library 86399000000000 "'' Work''" "''Email''" "''inbox ''"
      idle_workbook "''Timer started for Email in Work.''" running_workbook running_workbook
      86399000000000 86524000000000 "''  ''"]
    start running
  have "handle_stop sample_library 86524000000000 ''  '' running_workbook =
     (Inr ''Session saved to the time log.'',
      \<lparr>log_sheet =
         [\<lparr>l_Date = Dt 0, l_Project = Str ''Work'', l_Activity = Str ''Email'',
           l_Start = Ts 86399000000000, l_End = Ts 86524000000000,
           l_DurationMinutes = Num (1170935903116329 / 562949953421312),
           l_Notes = Str ''inbox''\<rparr>],
       projects_sheet = [\<lparr>p_Project = Str ''Work'', p_Activity = Str ''Email''\<rparr>],
       active_sheet = []\<rparr>)"
    by (simp add: blank date lib minutes) (simp add: running_workbook_def)
  with start f208 short long show ?thesis by simp
qed

text \<open>
  Claim C10: whenever \<^verbatim>\<open>handle_stop\<close> saves a session, the \<^verbatim>\<open>Date\<close> of the entry it appends
  (the last of the log) is the calendar date of the start of the session, while its \<^verbatim>\<open>End\<close>
  is the time of the stop: a session that spans midnight is dated on the day it started.
\<close>

theorem stop_dates_entry_by_start:
  assumes "handle_stop L now form_notes wb = (Inr msg, wb')"
  shows "\<exists>start_dt. active_sheet wb \<noteq> [] \<and>
           to_datetime L (a_Start (hd (active_sheet wb))) = Some start_dt \<and>
           log_sheet wb' \<noteq> [] \<and>
           l_Date (last (log_sheet wb')) = Dt (date_of start_dt) \<and>
           l_Start (last (log_sheet wb')) = Ts start_dt \<and>
           l_End (last (log_sheet wb')) = Ts now"
proof (cases "active_sheet wb")
  case Nil
  then show ?thesis using assms by (simp add: handle_stop_def)
next
  case (Cons active_entry rest)
  show ?thesis
  proof (cases "to_datetime L (a_Start active_entry)")
    case None
    then show ?thesis using assms Cons by (simp add: handle_stop_def)
  next
    case (Some start_dt)
    then show ?thesis using assms Cons
      by (auto simp: handle_stop_def write_workbook_def Let_def coerce_log_row_def
          date_cell_def ts_cell_def date_of_midnight)
  qed
qed

theorem stop_dates_entry_by_start_witness:
  "fst (handle_stop sample_library 86524000000000 ''done'' running_workbook) =
     Inr ''Session saved to the time log.'' \<and>
   l_Date (last (log_sheet (snd
     (handle_stop sample_library 86524000000000 ''done'' running_workbook)))) = Dt 0 \<and>
   l_End (last (log_sheet (snd
     (handle_stop sample_library 86524000000000 ''done'' running_workbook)))) =
     Ts 86524000000000 \<and>
   date_of 86399000000000 = 0 \<and> date_of 86524000000000 = 1"
proof -
  obtain wb' where stop: "handle_stop sample_library 86524000000000 ''done'' running_workbook =
     (Inr ''Session saved to the time log.'', wb')"
    by (simp add: handle_stop_def running_workbook_def Let_def)
  have start: "to_datetime sample_library (a_Start (hd (active_sheet running_workbook))) =
     Some 86399000000000"
    by (simp add: running_workbook_def)
  have dates: "date_of 86399000000000 = 0 \<and> date_of 86524000000000 = 1"
    by (simp add: date_of_def ns_per_day_def)
  from stop_dates_entry_by_start [OF stop] start dates stop show ?thesis by auto
qed

section \<open>The taxonomy index\<close>

text \<open>
  An item of the map has a project that is one of the cleaned project cells and is not
  empty, and the sorted set of the cleaned activity cells of its group that are not empty.
\<close>

lemma build_project_map_item:
  assumes "(project, activities) \<in> set (build_project_map L projects_df)"
  shows "project \<noteq> [] \<and> strip project = project \<and>
         (\<forall>activity \<in> set activities. activity \<noteq> [] \<and> strip activity = activity) \<and>
         distinct activities \<and> sorted activities"
proof -
  let ?cleaned = "map (\<lambda>r. (clean_cell L (p_Project r), clean_cell L (p_Activity r))) projects_df"
  from assms have ne: "projects_df \<noteq> []"
    by (auto simp: build_project_map_def split: if_splits)
  from assms ne have key: "project \<in> set (map fst ?cleaned)" and p: "project \<noteq> []"
    and acts: "activities = sort (remdups (filter (\<lambda>activity. activity \<noteq> [])
                 (map snd (filter (\<lambda>x. fst x = project) ?cleaned))))"
    by (auto simp: build_project_map_def Let_def List.map_filter_def split: if_splits)
  from key have "strip project = project"
    by (auto simp: clean_cell_strip)
  moreover have "\<forall>activity \<in> set activities. activity \<noteq> [] \<and> strip activity = activity"
    unfolding acts by (auto simp: clean_cell_strip)
  moreover have "distinct activities" "sorted activities"
    unfolding acts by simp_all
  ultimately show ?thesis using p by simp
qed

text \<open>
  Claim C7: for every definitions sheet, no project of the map returned by
  \<^verbatim>\<open>build_project_map\<close> is empty after trimming, no activity in it is empty after trimming,
  the activities of each project are without repetition and in ascending order of
  strings; and the empty sheet gives the empty map.
\<close>

theorem build_project_map_clean:
  "(\<forall>(project, activities) \<in> set (build_project_map L projects_df).
      strip project \<noteq> [] \<and>
      (\<forall>activity \<in> set activities. strip activity \<noteq> []) \<and>
      distinct activities \<and> sorted activities) \<and>
   build_project_map L [] = []"
proof (intro conjI ballI)
  fix item
  assume item: "item \<in> set (build_project_map L projects_df)"
  obtain project activities where eq: "item = (project, activities)" by (cases item)
  from build_project_map_item [of project activities L projects_df] item eq
  show "case item of (project, activities) \<Rightarrow>
      strip project \<noteq> [] \<and>
      (\<forall>activity \<in> set activities. strip activity \<noteq> []) \<and>
      distinct activities \<and> sorted activities"
    by auto
next
  show "build_project_map L [] = []" by (simp add: build_project_map_def)
qed

theorem build_project_map_clean_witness:
  "build_project_map sample_library sample_projects =
     [(''Home'', []), (''Work'', [''Code'', ''Email''])] \<and>
   strip ''Home'' \<noteq> [] \<and> strip ''Work'' \<noteq> [] \<and> strip ''Code'' \<noteq> [] \<and> strip ''Email'' \<noteq> [] \<and>
   sorted [''Code'', ''Email'']"
proof -
  have m: "build_project_map sample_library sample_projects =
     [(''Home'', []), (''Work'', [''Code'', ''Email''])]"
    by code_simp
  from build_project_map_clean [of sample_library sample_projects] m
  show ?thesis by simp
qed

section \<open>Adding a definition\<close>

text \<open>
  A cell that is not the empty string prints as a string that is not empty, and no cell
  that \<^verbatim>\<open>read_workbook\<close> returns is the empty string. So a cell of a sheet that was read
  equals, case ignored, no empty name.
\<close>

lemma astype_str_not_empty:
  assumes "c \<noteq> Str []" and "astype_str L c = Some s"
  shows "s \<noteq> []"
  using assms by (cases c) (auto split: if_splits prod.splits)

lemma na_empty_not_empty: "na_empty c \<noteq> Str []"
  by (cases c) auto

lemma read_projects_not_empty:
  assumes "r \<in> set (projects_sheet (read_workbook R file))"
  shows "p_Project r \<noteq> Str [] \<and> p_Activity r \<noteq> Str []"
  using assms by (auto simp: read_workbook_def na_empty_not_empty)

lemma lower_equal_not_empty:
  assumes "c \<noteq> Str []" and "lower_equal L c name"
  shows "name \<noteq> []"
proof -
  from assms(2) obtain s where s: "astype_str L c = Some s" and eq: "lower s = lower name"
    by (auto simp: lower_equal_def split: option.splits)
  from astype_str_not_empty [OF assms(1) s] eq show ?thesis
    by (metis lower_empty)
qed

text \<open>
  A row that equals the trimmed names of the form on both columns, case ignored, makes
  \<^verbatim>\<open>add_project_activity\<close> refuse, once the names of the form pass its first test.
\<close>

lemma add_project_activity_match:
  assumes r: "r \<in> set (projects_sheet wb)"
    and valid: "strip project \<noteq> []" "strip activity \<noteq> []"
    and p: "lower_equal L (p_Project r) (strip project)"
    and a: "lower_equal L (p_Activity r) (strip activity)"
  shows "add_project_activity L project activity wb = (Inl DuplicateDefinition, wb)"
proof -
  let ?existing = "filter (\<lambda>r. lower_equal L (p_Project r) (strip project)) (projects_sheet wb)"
  let ?match = "filter (\<lambda>r. lower_equal L (p_Activity r) (strip activity)) ?existing"
  from r p a have "?match \<noteq> []" by (auto simp: filter_empty_conv)
  moreover from r p have "?existing \<noteq> []" by (auto simp: filter_empty_conv)
  moreover from r have "projects_sheet wb \<noteq> []" by auto
  ultimately show ?thesis using valid
    by (simp add: add_project_activity_def Let_def)
qed

lemma strip_names:
  "strip ''Work'' = ''Work''" "strip ''Email'' = ''Email''"
  "strip ''work'' = ''work''" "strip ''EMAIL'' = ''EMAIL''"
  by code_simp+

lemma lower_names:
  "lower ''Work'' = ''work''" "lower ''Email'' = ''email''"
  "lower ''work'' = ''work''" "lower ''EMAIL'' = ''email''"
  by code_simp+

text \<open>
  Claim C8: for every file, every reading of it and every project and activity of the
  form, \<^verbatim>\<open>add_project_activity\<close> fails with \<open>DuplicateDefinition\<close> and writes nothing (the
  workbook is the one it read) whenever a definition it read equals the trimmed input on
  both fields, case ignored. In particular, adding Work and Email either finds them
  defined or hands the writer a sheet with the row Work, Email; and on every workbook
  with a row that reads Work and Email, case ignored, adding work and EMAIL fails so.
\<close>

theorem add_definition_duplicate:
  "(r \<in> set (projects_sheet (read_workbook R file)) \<and>
    lower_equal L (p_Project r) (strip project) \<and>
    lower_equal L (p_Activity r) (strip activity) \<longrightarrow>
    add_project_activity L project activity (read_workbook R file) =
      (Inl DuplicateDefinition, read_workbook R file)) \<and>
   (fst (add_project_activity L ''Work'' ''Email'' wb) = Inl DuplicateDefinition \<or>
    \<lparr>p_Project = Str ''Work'', p_Activity = Str ''Email''\<rparr> \<in>
      set (projects_sheet (snd (add_project_activity L ''Work'' ''Email'' wb)))) \<and>
   (r' \<in> set (projects_sheet wb') \<and>
    lower_equal L (p_Project r') ''Work'' \<and> lower_equal L (p_Activity r') ''Email'' \<longrightarrow>
    add_project_activity L ''work'' ''EMAIL'' wb' = (Inl DuplicateDefinition, wb'))"
proof (intro conjI impI)
  assume h: "r \<in> set (projects_sheet (read_workbook R file)) \<and>
    lower_equal L (p_Project r) (strip project) \<and>
    lower_equal L (p_Activity r) (strip activity)"
  then have cells: "p_Project r \<noteq> Str []" "p_Activity r \<noteq> Str []"
    using read_projects_not_empty by blast+
  from h cells have "strip project \<noteq> []" "strip activity \<noteq> []"
    using lower_equal_not_empty by blast+
  with h show "add_project_activity L project activity (read_workbook R file) =
      (Inl DuplicateDefinition, read_workbook R file)"
    using add_project_activity_match by blast
next
  show "fst (add_project_activity L ''Work'' ''Email'' wb) = Inl DuplicateDefinition \<or>
    \<lparr>p_Project = Str ''Work'', p_Activity = Str ''Email''\<rparr> \<in>
      set (projects_sheet (snd (add_project_activity L ''Work'' ''Email'' wb)))"
    by (simp add: add_project_activity_def Let_def strip_names write_workbook_def)
next
  assume h: "r' \<in> set (projects_sheet wb') \<and>
    lower_equal L (p_Project r') ''Work'' \<and> lower_equal L (p_Activity r') ''Email''"
  have same: "lower_equal L c ''Work'' = lower_equal L c ''work''"
    "lower_equal L c ''Email'' = lower_equal L c ''EMAIL''" for c
    by (simp_all add: lower_equal_def lower_names split: option.splits)
  from h show "add_project_activity L ''work'' ''EMAIL'' wb' = (Inl DuplicateDefinition, wb')"
    by (intro add_project_activity_match [of r']) (simp_all add: strip_names same)
qed

text \<open>
  Instances: the empty file, to which Work and Email are added; the file with that
  definition, on which work and EMAIL, with spaces around, are refused; and a file whose
  only definition has an empty project cell, which is read as a null and equals no name,
  so that the blank name of the form is a validation error and nothing more.
\<close>

theorem add_definition_duplicate_witness:
  "add_project_activity sample_library ''Work'' ''Email'' (read_workbook sample_reader empty_workbook) =
     (Inr ''Added 'Email' to Work.'', idle_workbook) \<and>
   read_workbook sample_reader idle_workbook = idle_workbook \<and>
   add_project_activity sample_library '' work'' ''EMAIL '' (read_workbook sample_reader idle_workbook) =
     (Inl DuplicateDefinition, idle_workbook) \<and>
   projects_sheet (read_workbook sample_reader
     \<lparr>log_sheet = [], projects_sheet = [\<lparr>p_Project = Str [], p_Activity = Str ''Email''\<rparr>],
      active_sheet = []\<rparr>) = [\<lparr>p_Project = NaN, p_Activity = Str ''Email''\<rparr>]"
proof -
  let ?r = "\<lparr>p_Project = Str ''Work'', p_Activity = Str ''Email''\<rparr>"
  have first: "add_project_activity sample_library ''Work'' ''Email''
      (read_workbook sample_reader empty_workbook) =
     (Inr ''Added 'Email' to Work.'', idle_workbook)"
    by code_simp
  have rd: "read_workbook sample_reader idle_workbook = idle_workbook"
    by (simp add: read_workbook_def sample_reader_def idle_workbook_def)
  have "?r \<in> set (projects_sheet (read_workbook sample_reader idle_workbook))"
    by (simp add: rd) (simp add: idle_workbook_def)
  moreover have "lower_equal sample_library (p_Project ?r) (strip '' work'')"
    by code_simp
  moreover have "lower_equal sample_library (p_Activity ?r) (strip ''EMAIL '')"
    by code_simp
  ultimately have "add_project_activity sample_library '' work'' ''EMAIL ''
      (read_workbook sample_reader idle_workbook) =
     (Inl DuplicateDefinition, read_workbook sample_reader idle_workbook)"
    using add_definition_duplicate [of ?r sample_reader idle_workbook sample_library
        "'' work''" "''EMAIL ''"]
    by simp
  moreover have "projects_sheet (read_workbook sample_reader
     \<lparr>log_sheet = [], projects_sheet = [\<lparr>p_Project = Str [], p_Activity = Str ''Email''\<rparr>],
      active_sheet = []\<rparr>) = [\<lparr>p_Project = NaN, p_Activity = Str ''Email''\<rparr>]"
    by (simp add: read_workbook_def sample_reader_def)
  ultimately show ?thesis using first rd by simp
qed

end
